theory Spec2Isabelle
  imports Complex_Main
begin

section \<open>Numbers, geometry primitives and the globe\<close>

text \<open>
  JavaScript Numbers are modelled as reals (finite values; NaN and the infinities are
  outside the model). \<open>Number.MAX_VALUE\<close> is the largest finite double,
  \<open>2^1024 - 2^971\<close>.
\<close>

definition MAX_VALUE :: real where
  "MAX_VALUE = 2 ^ 1024 - 2 ^ 971"

text \<open>
  Modelled from the spec: \<open>WWMath.clamp\<close> (\<open>util/WWMath\<close> is not among the
  sources). The spec's "clamp x to [lo, hi]": a value below the lower bound becomes the
  lower bound, a value above the upper bound becomes the upper bound, any other value is
  kept.
\<close>

definition clamp :: "real \<Rightarrow> real \<Rightarrow> real \<Rightarrow> real" where
  "clamp v minimum maximum =
     (if v < minimum then minimum else if v > maximum then maximum else v)"

text \<open>
  Modelled from the spec: \<open>Angle.normalizedDegrees\<close> and
  \<open>Angle.normalizedDegreesLongitude\<close> (\<open>geom/Angle\<close> is not among the sources).
  The spec's "normalize into (-180,180] (wrap-around, not clamp)": the angle is moved by
  whole turns of 360 degrees into the half-open interval (-180,180].
\<close>

definition normalizedDegrees :: "real \<Rightarrow> real" where
  "normalizedDegrees degrees = degrees - 360 * of_int \<lceil>(degrees - 180) / 360\<rceil>"

definition normalizedDegreesLongitude :: "real \<Rightarrow> real" where
  "normalizedDegreesLongitude degrees = degrees - 360 * of_int \<lceil>(degrees - 180) / 360\<rceil>"

record Position =
  latitude :: real
  longitude :: real
  altitude :: real

text \<open>
  Modelled from the spec: \<open>Position.copy\<close> (\<open>geom/Position\<close> is not among the
  sources), the spec's value copy of a position: the three coordinates of the other
  position are written into this one.
\<close>

definition Position_copy :: "Position \<Rightarrow> Position \<Rightarrow> Position" where
  "Position_copy this other =
     this\<lparr>latitude := latitude other, longitude := longitude other, altitude := altitude other\<rparr>"

text \<open>
  The globe is an external collaborator; the cameras read two things from it: the answer
  of \<open>is2D()\<close> and the field \<open>equatorialRadius\<close>. Both are fields of the model's globe.
\<close>

record Globe =
  is2D :: bool
  equatorialRadius :: real

record WorldWindow =
  globe :: Globe

type_synonym Vec3 = "real \<times> real \<times> real"

type_synonym Matrix = "real list"

text \<open>
  Modelled from the spec: \<open>Matrix.fromIdentity\<close> and \<open>Matrix.setToIdentity\<close>
  (\<open>geom/Matrix\<close> is not among the sources): a matrix is its 16 components in row-major
  order, as the tests write them, and "identity" is the 4x4 identity matrix.
\<close>

definition identityMatrix :: Matrix where
  "identityMatrix = [1, 0, 0, 0,  0, 1, 0, 0,  0, 0, 1, 0,  0, 0, 0, 1]"

record Line =
  origin :: Vec3
  direction :: Vec3

text \<open>
  Modelled from the spec: \<open>Line.pointAt\<close> (\<open>geom/Line\<close> is not among the sources),
  the spec's "advancing along the forward ray by range units".
\<close>

definition Line_pointAt :: "Line \<Rightarrow> real \<Rightarrow> Vec3" where
  "Line_pointAt this distance =
     (case origin this of (ox, oy, oz) \<Rightarrow>
      case direction this of (dx, dy, dz) \<Rightarrow>
        (ox + dx * distance, oy + dy * distance, oz + dz * distance))"

text \<open>
  The result object of \<open>Matrix.extractViewingParameters\<close>, with the four fields the
  cameras read from it.
\<close>

record ViewingParameters =
  vp_origin :: Position
  vp_heading :: real
  vp_tilt :: real
  vp_roll :: real

text \<open>
  The matrix primitives of \<open>geom/Matrix\<close> that the cameras call are not among the
  sources and the spec treats them as consumed primitives; they are parameters of the
  model. \<open>multiplyByLookAtModelview\<close> takes the current contents of the matrix and the
  arguments of the call and gives the new contents; the extraction functions read the
  matrix.
\<close>

record Primitives =
  multiplyByLookAtModelview ::
    "Matrix \<Rightarrow> Position \<Rightarrow> real \<Rightarrow> real \<Rightarrow> real \<Rightarrow> real \<Rightarrow> Globe \<Rightarrow> Matrix"
  extractEyePoint :: "Matrix \<Rightarrow> Vec3"
  extractForwardVector :: "Matrix \<Rightarrow> Vec3"
  extractViewingParameters :: "Matrix \<Rightarrow> Vec3 \<Rightarrow> real \<Rightarrow> Globe \<Rightarrow> ViewingParameters"

section \<open>The two cameras\<close>

type_synonym addr = nat

text \<open>
  The fields both cameras have: position, heading, tilt, roll, the WorldWindow and the
  scratch matrix (a reference to a matrix object) and scratch vector. The arc ball camera
  adds \<open>range\<close> (here \<open>range_f\<close>, since \<open>range\<close> is a HOL constant), the first person
  camera adds the scratch ray \<open>_ray\<close>. A camera holds its position, scratch vector and ray
  by value: the camera methods write them coordinate by coordinate and never share them;
  the navigator's \<open>lookAtLocation\<close> setter, which assigns a position object, stores its
  value.
\<close>

record Camera =
  position :: Position
  heading :: real
  tilt :: real
  roll :: real
  wwd :: WorldWindow
  scratchMatrix :: addr
  scratchVector :: Vec3

record ArcBallCamera = Camera +
  range_f :: real

record FirstPersonCamera = Camera +
  ray :: Line

text \<open>\<open>ArcBallCamera.prototype.applyLimits\<close>, statement by statement, on the fields of \<open>this\<close>.\<close>

definition ArcBallCamera_applyLimits :: "ArcBallCamera \<Rightarrow> ArcBallCamera" where
  "ArcBallCamera_applyLimits this0 =
     (let this1 = this0\<lparr>position := (position this0)
                    \<lparr>latitude := clamp (latitude (position this0)) (- 90) 90\<rparr>\<rparr>;
          this2 = this1\<lparr>position := (position this1)
                    \<lparr>longitude := normalizedDegreesLongitude (longitude (position this1))\<rparr>\<rparr>;
          this3 = this2\<lparr>position := (position this2)
                    \<lparr>altitude := clamp (altitude (position this2)) 0 MAX_VALUE\<rparr>\<rparr>;
          this4 = this3\<lparr>range_f := clamp (range_f this3) 1 MAX_VALUE\<rparr>;
          this5 = this4\<lparr>heading := normalizedDegrees (heading this4)\<rparr>;
          this6 = this5\<lparr>tilt := clamp (tilt this5) 0 90\<rparr>;
          this7 = this6\<lparr>roll := normalizedDegrees (roll this6)\<rparr>
      in if is2D (globe (wwd this7)) then
           (let maxRange = 2 * pi * equatorialRadius (globe (wwd this7));
                this8 = this7\<lparr>range_f := clamp (range_f this7) 1 maxRange\<rparr>
            in this8\<lparr>tilt := 0\<rparr>)
         else this7)"

text \<open>\<open>FirstPersonCamera.prototype.applyLimits\<close>.\<close>

definition FirstPersonCamera_applyLimits :: "FirstPersonCamera \<Rightarrow> FirstPersonCamera" where
  "FirstPersonCamera_applyLimits this0 =
     (let this1 = this0\<lparr>position := (position this0)
                    \<lparr>latitude := clamp (latitude (position this0)) (- 90) 90\<rparr>\<rparr>;
          this2 = this1\<lparr>position := (position this1)
                    \<lparr>longitude := normalizedDegreesLongitude (longitude (position this1))\<rparr>\<rparr>;
          this3 = this2\<lparr>position := (position this2)
                    \<lparr>altitude := clamp (altitude (position this2)) 0 MAX_VALUE\<rparr>\<rparr>;
          this4 = this3\<lparr>tilt := clamp (tilt this3) (- 90) 90\<rparr>;
          this5 = this4\<lparr>heading := normalizedDegrees (heading this4)\<rparr>
      in this5\<lparr>roll := normalizedDegrees (roll this5)\<rparr>)"

section \<open>Objects and references\<close>

text \<open>
  Cameras and matrices are objects: the methods receive references to them, mutate them in
  place and return references. The store maps every address to the camera or matrix that
  lives there; \<open>nextAddr\<close> is the next address \<open>new\<close> hands out. A method is a
  function from the store to its outcome (the thrown error or the returned value) and the
  store it leaves behind, so that a throw after a mutation would show in the store.
\<close>

datatype error = ArgumentError

record heap =
  arcBallCameras :: "addr \<Rightarrow> ArcBallCamera"
  firstPersonCameras :: "addr \<Rightarrow> FirstPersonCamera"
  matrices :: "addr \<Rightarrow> Matrix"
  nextAddr :: addr

definition ArcBallCamera_update :: "addr \<Rightarrow> (ArcBallCamera \<Rightarrow> ArcBallCamera) \<Rightarrow> heap \<Rightarrow> heap" where
  "ArcBallCamera_update this f h = h\<lparr>arcBallCameras := (arcBallCameras h)(this := f (arcBallCameras h this))\<rparr>"

definition FirstPersonCamera_update ::
  "addr \<Rightarrow> (FirstPersonCamera \<Rightarrow> FirstPersonCamera) \<Rightarrow> heap \<Rightarrow> heap" where
  "FirstPersonCamera_update this f h =
     h\<lparr>firstPersonCameras := (firstPersonCameras h)(this := f (firstPersonCameras h this))\<rparr>"

definition Matrix_update :: "addr \<Rightarrow> (Matrix \<Rightarrow> Matrix) \<Rightarrow> heap \<Rightarrow> heap" where
  "Matrix_update m f h = h\<lparr>matrices := (matrices h)(m := f (matrices h m))\<rparr>"

text \<open>\<open>Matrix.fromIdentity()\<close>: a new matrix object holding the identity.\<close>

definition Matrix_fromIdentity :: "heap \<Rightarrow> addr \<times> heap" where
  "Matrix_fromIdentity h =
     (nextAddr h,
      h\<lparr>matrices := (matrices h)(nextAddr h := identityMatrix), nextAddr := Suc (nextAddr h)\<rparr>)"

subsection \<open>ArcBallCamera\<close>

text \<open>The constructor: the check of \<open>wwd\<close> comes first, then the default field values.\<close>

definition ArcBallCamera_new :: "WorldWindow option \<Rightarrow> heap \<Rightarrow> (error + addr) \<times> heap" where
  "ArcBallCamera_new wwd_arg h =
     (case wwd_arg of
        None \<Rightarrow> (Inl ArgumentError, h)
      | Some w \<Rightarrow>
          (let this = nextAddr h;
               h1 = h\<lparr>nextAddr := Suc this\<rparr>;
               (m, h2) = Matrix_fromIdentity h1;
               c = \<lparr>position = \<lparr>latitude = 30, longitude = - 110, altitude = 0\<rparr>,
                    heading = 0, tilt = 0, roll = 0, wwd = w,
                    scratchMatrix = m, scratchVector = (0, 0, 0),
                    range_f = 10000000\<rparr>
           in (Inr this, h2\<lparr>arcBallCameras := (arcBallCameras h2)(this := c)\<rparr>)))"

text \<open>\<open>applyLimits\<close> called on the camera object at \<open>this\<close>.\<close>

definition ArcBallCamera_applyLimits_at :: "addr \<Rightarrow> heap \<Rightarrow> heap" where
  "ArcBallCamera_applyLimits_at this h = ArcBallCamera_update this ArcBallCamera_applyLimits h"

definition ArcBallCamera_createViewMatrix ::
  "Primitives \<Rightarrow> addr \<Rightarrow> addr option \<Rightarrow> heap \<Rightarrow> (error + addr) \<times> heap" where
  "ArcBallCamera_createViewMatrix P this matrix h =
     (case matrix of
        None \<Rightarrow> (Inl ArgumentError, h)
      | Some m \<Rightarrow>
          (let h1 = ArcBallCamera_applyLimits_at this h;
               h2 = Matrix_update m (\<lambda>_. identityMatrix) h1;
               c = arcBallCameras h2 this;
               h3 = Matrix_update m (\<lambda>mat. multiplyByLookAtModelview P mat
                      (position c) (range_f c) (heading c) (tilt c) (roll c) (globe (wwd c))) h2
           in (Inr m, h3)))"

definition ArcBallCamera_copy :: "addr \<Rightarrow> addr option \<Rightarrow> heap \<Rightarrow> (error + addr) \<times> heap" where
  "ArcBallCamera_copy this camera h =
     (case camera of
        None \<Rightarrow> (Inl ArgumentError, h)
      | Some other \<Rightarrow>
          (let h1 = ArcBallCamera_update this
                      (\<lambda>c. c\<lparr>position := Position_copy (position c) (position (arcBallCameras h other))\<rparr>) h;
               h2 = ArcBallCamera_update this (\<lambda>c. c\<lparr>tilt := tilt (arcBallCameras h1 other)\<rparr>) h1;
               h3 = ArcBallCamera_update this (\<lambda>c. c\<lparr>heading := heading (arcBallCameras h2 other)\<rparr>) h2;
               h4 = ArcBallCamera_update this (\<lambda>c. c\<lparr>range_f := range_f (arcBallCameras h3 other)\<rparr>) h3;
               h5 = ArcBallCamera_update this (\<lambda>c. c\<lparr>roll := roll (arcBallCameras h4 other)\<rparr>) h4
           in (Inr this, h5)))"

definition ArcBallCamera_clone :: "addr \<Rightarrow> addr option \<Rightarrow> heap \<Rightarrow> (error + addr) \<times> heap" where
  "ArcBallCamera_clone this camera h =
     (case (case camera of
              Some c \<Rightarrow> (Inr c, h)
            | None \<Rightarrow> ArcBallCamera_new (Some (wwd (arcBallCameras h this))) h) of
        (Inl e, h1) \<Rightarrow> (Inl e, h1)
      | (Inr c, h1) \<Rightarrow>
          (case ArcBallCamera_copy c (Some this) h1 of
             (Inl e, h2) \<Rightarrow> (Inl e, h2)
           | (Inr _, h2) \<Rightarrow> (Inr c, h2)))"

subsection \<open>FirstPersonCamera\<close>

definition FirstPersonCamera_new :: "WorldWindow option \<Rightarrow> heap \<Rightarrow> (error + addr) \<times> heap" where
  "FirstPersonCamera_new wwd_arg h =
     (case wwd_arg of
        None \<Rightarrow> (Inl ArgumentError, h)
      | Some w \<Rightarrow>
          (let this = nextAddr h;
               h1 = h\<lparr>nextAddr := Suc this\<rparr>;
               (m, h2) = Matrix_fromIdentity h1;
               c = \<lparr>position = \<lparr>latitude = 30, longitude = - 110, altitude = 1000\<rparr>,
                    heading = 0, tilt = 0, roll = 0, wwd = w,
                    scratchMatrix = m, scratchVector = (0, 0, 0),
                    ray = \<lparr>origin = (0, 0, 0), direction = (0, 0, 0)\<rparr>\<rparr>
           in (Inr this, h2\<lparr>firstPersonCameras := (firstPersonCameras h2)(this := c)\<rparr>)))"



definition FirstPersonCamera_applyLimits_at :: "addr \<Rightarrow> heap \<Rightarrow> heap" where
  "FirstPersonCamera_applyLimits_at this h =
     FirstPersonCamera_update this FirstPersonCamera_applyLimits h"

definition FirstPersonCamera_createViewMatrix ::
  "Primitives \<Rightarrow> addr \<Rightarrow> addr option \<Rightarrow> heap \<Rightarrow> (error + addr) \<times> heap" where
  "FirstPersonCamera_createViewMatrix P this matrix h =
     (case matrix of
        None \<Rightarrow> (Inl ArgumentError, h)
      | Some m \<Rightarrow>
          (let h1 = FirstPersonCamera_applyLimits_at this h;
               h2 = Matrix_update m (\<lambda>_. identityMatrix) h1;
               c = firstPersonCameras h2 this;
               h3 = Matrix_update m (\<lambda>mat. multiplyByLookAtModelview P mat
                      (position c) 0 (heading c) (tilt c + 90) (roll c) (globe (wwd c))) h2
           in (Inr m, h3)))"

definition FirstPersonCamera_copy :: "addr \<Rightarrow> addr option \<Rightarrow> heap \<Rightarrow> (error + addr) \<times> heap" where
  "FirstPersonCamera_copy this camera h =
     (case camera of
        None \<Rightarrow> (Inl ArgumentError, h)
      | Some other \<Rightarrow>
          (let h1 = FirstPersonCamera_update this
                      (\<lambda>c. c\<lparr>position := Position_copy (position c) (position (firstPersonCameras h other))\<rparr>) h;
               h2 = FirstPersonCamera_update this (\<lambda>c. c\<lparr>heading := heading (firstPersonCameras h1 other)\<rparr>) h1;
               h3 = FirstPersonCamera_update this (\<lambda>c. c\<lparr>tilt := tilt (firstPersonCameras h2 other)\<rparr>) h2;
               h4 = FirstPersonCamera_update this (\<lambda>c. c\<lparr>roll := roll (firstPersonCameras h3 other)\<rparr>) h3
           in (Inr this, h4)))"

definition FirstPersonCamera_clone :: "addr \<Rightarrow> addr option \<Rightarrow> heap \<Rightarrow> (error + addr) \<times> heap" where
  "FirstPersonCamera_clone this camera h =
     (case (case camera of
              Some c \<Rightarrow> (Inr c, h)
            | None \<Rightarrow> FirstPersonCamera_new (Some (wwd (firstPersonCameras h this))) h) of
        (Inl e, h1) \<Rightarrow> (Inl e, h1)
      | (Inr c, h1) \<Rightarrow>
          (case FirstPersonCamera_copy c (Some this) h1 of
             (Inl e, h2) \<Rightarrow> (Inl e, h2)
           | (Inr _, h2) \<Rightarrow> (Inr c, h2)))"

subsection \<open>The conversions\<close>

definition ArcBallCamera_toFirstPerson ::
  "Primitives \<Rightarrow> addr \<Rightarrow> addr option \<Rightarrow> heap \<Rightarrow> (error + addr) \<times> heap" where
  "ArcBallCamera_toFirstPerson P this camera h =
     (case camera of
        None \<Rightarrow> (Inl ArgumentError, h)
      | Some out \<Rightarrow>
          (case ArcBallCamera_createViewMatrix P this (Some (scratchMatrix (arcBallCameras h this))) h of
             (Inl e, h1) \<Rightarrow> (Inl e, h1)
           | (Inr viewMatrix, h1) \<Rightarrow>
               (let eyePoint = extractEyePoint P (matrices h1 viewMatrix);
                    h2 = ArcBallCamera_update this (\<lambda>c. c\<lparr>scratchVector := eyePoint\<rparr>) h1;
                    params = extractViewingParameters P (matrices h2 viewMatrix) eyePoint
                               (roll (arcBallCameras h2 this)) (globe (wwd (arcBallCameras h2 this)));
                    h3 = FirstPersonCamera_update out
                           (\<lambda>c. c\<lparr>position := Position_copy (position c) (vp_origin params)\<rparr>) h2;
                    h4 = FirstPersonCamera_update out (\<lambda>c. c\<lparr>heading := vp_heading params\<rparr>) h3;
                    h5 = FirstPersonCamera_update out (\<lambda>c. c\<lparr>tilt := vp_tilt params - 90\<rparr>) h4;
                    h6 = FirstPersonCamera_update out (\<lambda>c. c\<lparr>roll := vp_roll params\<rparr>) h5;
                    h7 = FirstPersonCamera_applyLimits_at out h6
                in (Inr out, h7))))"

definition FirstPersonCamera_toArcBall ::
  "Primitives \<Rightarrow> addr \<Rightarrow> addr option \<Rightarrow> heap \<Rightarrow> (error + addr) \<times> heap" where
  "FirstPersonCamera_toArcBall P this arcBallCamera h =
     (case arcBallCamera of
        None \<Rightarrow> (Inl ArgumentError, h)
      | Some out \<Rightarrow>
          (case FirstPersonCamera_createViewMatrix P this
                  (Some (scratchMatrix (firstPersonCameras h this))) h of
             (Inl e, h1) \<Rightarrow> (Inl e, h1)
           | (Inr viewMatrix, h1) \<Rightarrow>
               (let h2 = FirstPersonCamera_update this
                           (\<lambda>c. c\<lparr>ray := (ray c)\<lparr>origin := extractEyePoint P (matrices h1 viewMatrix)\<rparr>\<rparr>) h1;
                    h3 = FirstPersonCamera_update this
                           (\<lambda>c. c\<lparr>ray := (ray c)\<lparr>direction := extractForwardVector P (matrices h2 viewMatrix)\<rparr>\<rparr>) h2;
                    lookAtPoint = Line_pointAt (ray (firstPersonCameras h3 this))
                                    (range_f (arcBallCameras h3 out));
                    h4 = FirstPersonCamera_update this (\<lambda>c. c\<lparr>scratchVector := lookAtPoint\<rparr>) h3;
                    params = extractViewingParameters P (matrices h4 viewMatrix) lookAtPoint
                               (roll (firstPersonCameras h4 this))
                               (globe (wwd (firstPersonCameras h4 this)));
                    h5 = ArcBallCamera_update out
                           (\<lambda>c. c\<lparr>position := Position_copy (position c) (vp_origin params)\<rparr>) h4;
                    h6 = ArcBallCamera_update out (\<lambda>c. c\<lparr>heading := vp_heading params\<rparr>) h5;
                    h7 = ArcBallCamera_update out (\<lambda>c. c\<lparr>tilt := vp_tilt params\<rparr>) h6;
                    h8 = ArcBallCamera_update out (\<lambda>c. c\<lparr>roll := vp_roll params\<rparr>) h7;
                    h9 = ArcBallCamera_applyLimits_at out h8
                in (Inr out, h9))))"

section \<open>Navigator\<close>

text \<open>
  The navigator's camera is an \<open>ArcBallCamera\<close> or a \<open>FirstPersonCamera\<close>; the tag of
  the reference is what \<open>instanceof FirstPersonCamera\<close> tests.
\<close>

datatype CameraRef = ArcBallRef addr | FirstPersonRef addr

record Navigator =
  camera_f :: CameraRef

definition Navigator_new :: "CameraRef option \<Rightarrow> heap \<Rightarrow> (error + Navigator) \<times> heap" where
  "Navigator_new camera h =
     (case camera of
        None \<Rightarrow> (Inl ArgumentError, h)
      | Some c \<Rightarrow> (Inr \<lparr>camera_f = c\<rparr>, h))"


definition Navigator_set_camera :: "CameraRef \<Rightarrow> Navigator \<Rightarrow> Navigator" where
  "Navigator_set_camera camera this = this\<lparr>camera_f := camera\<rparr>"














section \<open>Example inputs\<close>

text \<open>
  The camera of the test "Applies limits" of the arc ball camera: the fields the test
  assigns, on the round WGS84 globe the tests construct.
\<close>

definition roundEarth :: WorldWindow where
  "roundEarth = \<lparr>globe = \<lparr>is2D = False, equatorialRadius = 6378137\<rparr>\<rparr>"

definition flatEarth :: WorldWindow where
  "flatEarth = \<lparr>globe = \<lparr>is2D = True, equatorialRadius = 6378137\<rparr>\<rparr>"

definition testArcBallCamera :: ArcBallCamera where
  "testArcBallCamera =
     \<lparr>position = \<lparr>latitude = 100, longitude = 185, altitude = - 1000\<rparr>,
      heading = 370, tilt = 100, roll = - 270, wwd = roundEarth,
      scratchMatrix = 0, scratchVector = (0, 0, 0), range_f = - 6000\<rparr>"

definition testFirstPersonCamera :: FirstPersonCamera where
  "testFirstPersonCamera =
     \<lparr>position = \<lparr>latitude = 100, longitude = 185, altitude = - 1000\<rparr>,
      heading = 370, tilt = 100, roll = - 270, wwd = roundEarth,
      scratchMatrix = 1, scratchVector = (0, 0, 0),
      ray = \<lparr>origin = (0, 0, 0), direction = (0, 0, 0)\<rparr>\<rparr>"


text \<open>
  Primitives and a store to run the methods on: a look-at primitive that records its tilt
  argument in the first component of the matrix, extraction functions that give fixed
  values, and a store with the two test cameras at address 0.
\<close>

definition examplePrimitives :: Primitives where
  "examplePrimitives =
     \<lparr>multiplyByLookAtModelview = (\<lambda>m p r h t ro g. m[0 := t]),
      extractEyePoint = (\<lambda>m. (1, 2, 3)),
      extractForwardVector = (\<lambda>m. (0, 0, - 1)),
      extractViewingParameters = (\<lambda>m p ro g.
        \<lparr>vp_origin = \<lparr>latitude = 10, longitude = 20, altitude = 30\<rparr>,
         vp_heading = 40, vp_tilt = 50, vp_roll = ro\<rparr>)\<rparr>"

definition exampleHeap :: heap where
  "exampleHeap =
     \<lparr>arcBallCameras = (\<lambda>_. testArcBallCamera\<lparr>range_f := 5000\<rparr>),
      firstPersonCameras = (\<lambda>_. testFirstPersonCamera),
      matrices = (\<lambda>_. identityMatrix),
      nextAddr = 2\<rparr>"

section \<open>Facts about the primitives\<close>

lemma MAX_VALUE_ge: "2 ^ 53 - 1 \<le> MAX_VALUE"
proof -
  have a: "(2::real) ^ 1024 = 2 ^ 971 * 2 ^ 53" by (simp flip: power_add)
  have b: "(1::real) \<le> 2 ^ 971" by (rule one_le_power) simp
  have "(2 ^ 53 - 1) * (1::real) \<le> (2 ^ 53 - 1) * 2 ^ 971"
    by (rule mult_left_mono) (use b in simp_all)
  then show ?thesis unfolding MAX_VALUE_def a by (simp only: algebra_simps)
qed

lemma MAX_VALUE_ge_one: "1 \<le> MAX_VALUE"
  using MAX_VALUE_ge by simp

lemma normalizedDegrees_bounds: "- 180 < normalizedDegrees d \<and> normalizedDegrees d \<le> 180"
proof -
  define x where "x = (d - 180) / 360"
  have 1: "of_int \<lceil>x\<rceil> - 1 < x \<and> x \<le> of_int \<lceil>x\<rceil>" by (rule ceiling_correct)
  have d: "d = 360 * x + 180" by (simp add: x_def diff_divide_distrib)
  have "normalizedDegrees d = d - 360 * of_int \<lceil>x\<rceil>"
    by (simp add: normalizedDegrees_def x_def)
  with 1 d show ?thesis by linarith
qed

lemma normalizedDegrees_id:
  assumes "- 180 < d" "d \<le> 180"
  shows "normalizedDegrees d = d"
proof -
  have "\<lceil>(d - 180) / 360\<rceil> = 0"
    by (rule ceiling_unique) (use assms in simp_all)
  then show ?thesis by (simp add: normalizedDegrees_def)
qed

lemma normalizedDegrees_idem: "normalizedDegrees (normalizedDegrees d) = normalizedDegrees d"
  using normalizedDegrees_bounds [of d] by (simp add: normalizedDegrees_id)

lemma normalizedDegreesLongitude_eq: "normalizedDegreesLongitude d = normalizedDegrees d"
  by (simp add: normalizedDegreesLongitude_def normalizedDegrees_def)


lemma clamp_id: "lo \<le> v \<Longrightarrow> v \<le> hi \<Longrightarrow> clamp v lo hi = v"
  by (simp add: clamp_def)

lemma clamp_idem: "lo \<le> hi \<Longrightarrow> clamp (clamp v lo hi) lo hi = clamp v lo hi"
  by (simp add: clamp_def)

lemma clamp_range_2D_idem:
  "clamp (clamp (clamp (clamp v 1 MAX_VALUE) 1 m) 1 MAX_VALUE) 1 m = clamp (clamp v 1 MAX_VALUE) 1 m"
  using MAX_VALUE_ge_one by (simp add: clamp_def)

lemma ArcBallCamera_applyLimits_fields:
  "position (ArcBallCamera_applyLimits c) =
     \<lparr>latitude = clamp (latitude (position c)) (- 90) 90,
      longitude = normalizedDegreesLongitude (longitude (position c)),
      altitude = clamp (altitude (position c)) 0 MAX_VALUE\<rparr>"
  "heading (ArcBallCamera_applyLimits c) = normalizedDegrees (heading c)"
  "roll (ArcBallCamera_applyLimits c) = normalizedDegrees (roll c)"
  "tilt (ArcBallCamera_applyLimits c) =
     (if is2D (globe (wwd c)) then 0 else clamp (tilt c) 0 90)"
  "range_f (ArcBallCamera_applyLimits c) =
     (if is2D (globe (wwd c))
      then clamp (clamp (range_f c) 1 MAX_VALUE) 1 (2 * pi * equatorialRadius (globe (wwd c)))
      else clamp (range_f c) 1 MAX_VALUE)"
  "wwd (ArcBallCamera_applyLimits c) = wwd c"
  "scratchMatrix (ArcBallCamera_applyLimits c) = scratchMatrix c"
  "scratchVector (ArcBallCamera_applyLimits c) = scratchVector c"
  "ArcBallCamera.more (ArcBallCamera_applyLimits c) = ArcBallCamera.more c"
  by (simp_all add: ArcBallCamera_applyLimits_def Let_def)

lemma FirstPersonCamera_applyLimits_fields:
  "position (FirstPersonCamera_applyLimits c) =
     \<lparr>latitude = clamp (latitude (position c)) (- 90) 90,
      longitude = normalizedDegreesLongitude (longitude (position c)),
      altitude = clamp (altitude (position c)) 0 MAX_VALUE\<rparr>"
  "heading (FirstPersonCamera_applyLimits c) = normalizedDegrees (heading c)"
  "roll (FirstPersonCamera_applyLimits c) = normalizedDegrees (roll c)"
  "tilt (FirstPersonCamera_applyLimits c) = clamp (tilt c) (- 90) 90"
  "wwd (FirstPersonCamera_applyLimits c) = wwd c"
  "scratchMatrix (FirstPersonCamera_applyLimits c) = scratchMatrix c"
  "scratchVector (FirstPersonCamera_applyLimits c) = scratchVector c"
  "ray (FirstPersonCamera_applyLimits c) = ray c"
  "FirstPersonCamera.more (FirstPersonCamera_applyLimits c) = FirstPersonCamera.more c"
  by (simp_all add: FirstPersonCamera_applyLimits_def Let_def)

lemma ArcBallCamera_applyLimits_idem:
  "ArcBallCamera_applyLimits (ArcBallCamera_applyLimits c) = ArcBallCamera_applyLimits c"
proof (rule ArcBallCamera.equality)
  show "position (ArcBallCamera_applyLimits (ArcBallCamera_applyLimits c)) =
        position (ArcBallCamera_applyLimits c)"
    using MAX_VALUE_ge_one
    by (simp add: ArcBallCamera_applyLimits_fields clamp_idem normalizedDegreesLongitude_eq
        normalizedDegrees_idem)
  show "range_f (ArcBallCamera_applyLimits (ArcBallCamera_applyLimits c)) =
        range_f (ArcBallCamera_applyLimits c)"
    using MAX_VALUE_ge_one
    by (simp add: ArcBallCamera_applyLimits_fields clamp_idem clamp_range_2D_idem)
  show "tilt (ArcBallCamera_applyLimits (ArcBallCamera_applyLimits c)) =
        tilt (ArcBallCamera_applyLimits c)"
    by (simp add: ArcBallCamera_applyLimits_fields clamp_idem)
qed (simp_all add: ArcBallCamera_applyLimits_fields normalizedDegrees_idem)

lemma FirstPersonCamera_applyLimits_idem:
  "FirstPersonCamera_applyLimits (FirstPersonCamera_applyLimits c) =
   FirstPersonCamera_applyLimits c"
proof (rule FirstPersonCamera.equality)
  show "position (FirstPersonCamera_applyLimits (FirstPersonCamera_applyLimits c)) =
        position (FirstPersonCamera_applyLimits c)"
    using MAX_VALUE_ge_one
    by (simp add: FirstPersonCamera_applyLimits_fields clamp_idem normalizedDegreesLongitude_eq
        normalizedDegrees_idem)
  show "tilt (FirstPersonCamera_applyLimits (FirstPersonCamera_applyLimits c)) =
        tilt (FirstPersonCamera_applyLimits c)"
    by (simp add: FirstPersonCamera_applyLimits_fields clamp_idem)
qed (simp_all add: FirstPersonCamera_applyLimits_fields normalizedDegrees_idem)


lemma clamp_lower: "v \<le> hi \<or> lo \<le> hi \<Longrightarrow> lo \<le> clamp v lo hi"
  by (auto simp add: clamp_def)

lemma clamp_upper: "lo \<le> v \<or> lo \<le> hi \<Longrightarrow> clamp v lo hi \<le> hi"
  by (auto simp add: clamp_def)


lemma ArcBall_range_le_max:
  assumes "is2D (globe (wwd c))"
  shows "range_f (ArcBallCamera_applyLimits c) \<le> 2 * pi * equatorialRadius (globe (wwd c))"
proof -
  have "1 \<le> clamp (range_f c) 1 MAX_VALUE"
    using MAX_VALUE_ge_one by (intro clamp_lower) simp
  then show ?thesis using assms
    by (simp add: ArcBallCamera_applyLimits_fields clamp_upper)
qed

section \<open>Facts about the store\<close>

lemma ArcBallCamera_update_simps [simp]:
  "arcBallCameras (ArcBallCamera_update a f h) = (arcBallCameras h)(a := f (arcBallCameras h a))"
  "firstPersonCameras (ArcBallCamera_update a f h) = firstPersonCameras h"
  "matrices (ArcBallCamera_update a f h) = matrices h"
  "nextAddr (ArcBallCamera_update a f h) = nextAddr h"
  by (simp_all add: ArcBallCamera_update_def)

lemma FirstPersonCamera_update_simps [simp]:
  "firstPersonCameras (FirstPersonCamera_update a f h) =
     (firstPersonCameras h)(a := f (firstPersonCameras h a))"
  "arcBallCameras (FirstPersonCamera_update a f h) = arcBallCameras h"
  "matrices (FirstPersonCamera_update a f h) = matrices h"
  "nextAddr (FirstPersonCamera_update a f h) = nextAddr h"
  by (simp_all add: FirstPersonCamera_update_def)

lemma Matrix_update_simps [simp]:
  "matrices (Matrix_update m f h) = (matrices h)(m := f (matrices h m))"
  "arcBallCameras (Matrix_update m f h) = arcBallCameras h"
  "firstPersonCameras (Matrix_update m f h) = firstPersonCameras h"
  "nextAddr (Matrix_update m f h) = nextAddr h"
  by (simp_all add: Matrix_update_def)

section \<open>Facts about the methods\<close>

lemma ArcBallCamera_createViewMatrix_Some:
  "ArcBallCamera_createViewMatrix P this (Some m) h =
     (let c = ArcBallCamera_applyLimits (arcBallCameras h this) in
      (Inr m,
       h\<lparr>arcBallCameras := (arcBallCameras h)(this := c),
         matrices := (matrices h)(m := multiplyByLookAtModelview P identityMatrix
           (position c) (range_f c) (heading c) (tilt c) (roll c) (globe (wwd c)))\<rparr>))"
  by (simp add: ArcBallCamera_createViewMatrix_def ArcBallCamera_applyLimits_at_def Let_def
      ArcBallCamera_update_def Matrix_update_def)

lemma FirstPersonCamera_createViewMatrix_Some:
  "FirstPersonCamera_createViewMatrix P this (Some m) h =
     (let c = FirstPersonCamera_applyLimits (firstPersonCameras h this) in
      (Inr m,
       h\<lparr>firstPersonCameras := (firstPersonCameras h)(this := c),
         matrices := (matrices h)(m := multiplyByLookAtModelview P identityMatrix
           (position c) 0 (heading c) (tilt c + 90) (roll c) (globe (wwd c)))\<rparr>))"
  by (simp add: FirstPersonCamera_createViewMatrix_def FirstPersonCamera_applyLimits_at_def Let_def
      FirstPersonCamera_update_def Matrix_update_def)

lemma ArcBallCamera_toFirstPerson_Some:
  "ArcBallCamera_toFirstPerson P this (Some out) h =
     (let c = ArcBallCamera_applyLimits (arcBallCameras h this);
          M = multiplyByLookAtModelview P identityMatrix
                (position c) (range_f c) (heading c) (tilt c) (roll c) (globe (wwd c));
          eyePoint = extractEyePoint P M;
          params = extractViewingParameters P M eyePoint (roll c) (globe (wwd c));
          d = firstPersonCameras h out
      in (Inr out,
          h\<lparr>arcBallCameras := (arcBallCameras h)(this := c\<lparr>scratchVector := eyePoint\<rparr>),
            matrices := (matrices h)(scratchMatrix (arcBallCameras h this) := M),
            firstPersonCameras := (firstPersonCameras h)(out := FirstPersonCamera_applyLimits
              (d\<lparr>position := Position_copy (position d) (vp_origin params),
                 heading := vp_heading params, tilt := vp_tilt params - 90,
                 roll := vp_roll params\<rparr>))\<rparr>))"
  by (simp add: ArcBallCamera_toFirstPerson_def ArcBallCamera_createViewMatrix_Some Let_def
      FirstPersonCamera_applyLimits_at_def ArcBallCamera_update_def FirstPersonCamera_update_def
      ArcBallCamera_applyLimits_fields)

lemma FirstPersonCamera_toArcBall_Some:
  "FirstPersonCamera_toArcBall P this (Some out) h =
     (let d = FirstPersonCamera_applyLimits (firstPersonCameras h this);
          M = multiplyByLookAtModelview P identityMatrix
                (position d) 0 (heading d) (tilt d + 90) (roll d) (globe (wwd d));
          r = (ray d)\<lparr>origin := extractEyePoint P M, direction := extractForwardVector P M\<rparr>;
          c = arcBallCameras h out;
          lookAtPoint = Line_pointAt r (range_f c);
          params = extractViewingParameters P M lookAtPoint (roll d) (globe (wwd d))
      in (Inr out,
          h\<lparr>firstPersonCameras := (firstPersonCameras h)
               (this := d\<lparr>ray := r, scratchVector := lookAtPoint\<rparr>),
            matrices := (matrices h)(scratchMatrix (firstPersonCameras h this) := M),
            arcBallCameras := (arcBallCameras h)(out := ArcBallCamera_applyLimits
              (c\<lparr>position := Position_copy (position c) (vp_origin params),
                 heading := vp_heading params, tilt := vp_tilt params,
                 roll := vp_roll params\<rparr>))\<rparr>))"
  by (simp add: FirstPersonCamera_toArcBall_def FirstPersonCamera_createViewMatrix_Some Let_def
      ArcBallCamera_applyLimits_at_def ArcBallCamera_update_def FirstPersonCamera_update_def
      FirstPersonCamera_applyLimits_fields)











section \<open>The limits\<close>




text \<open>
  Claim C2 (idempotence of \<open>applyLimits\<close>). For either camera, on any globe and for any
  field values, a second call of \<open>applyLimits\<close> right after the first leaves the store,
  and so the camera, exactly as the first call left it.
\<close>

theorem applyLimits_idempotent:
  "ArcBallCamera_applyLimits_at a (ArcBallCamera_applyLimits_at a h) =
     ArcBallCamera_applyLimits_at a h \<and>
   FirstPersonCamera_applyLimits_at b (FirstPersonCamera_applyLimits_at b h) =
     FirstPersonCamera_applyLimits_at b h \<and>
   ArcBallCamera_applyLimits (ArcBallCamera_applyLimits c) = ArcBallCamera_applyLimits c \<and>
   FirstPersonCamera_applyLimits (FirstPersonCamera_applyLimits d) = FirstPersonCamera_applyLimits d"
  by (simp add: ArcBallCamera_applyLimits_at_def FirstPersonCamera_applyLimits_at_def
      ArcBallCamera_update_def FirstPersonCamera_update_def
      ArcBallCamera_applyLimits_idem FirstPersonCamera_applyLimits_idem)

text \<open>
  Claim C3 (the clamping example of the test). An arc ball camera on a round globe with
  latitude 100, longitude 185, altitude -1000, heading 370, tilt 100, range -6000 and roll
  -270 has, after one \<open>applyLimits\<close>, latitude 90, longitude -175, altitude 0, heading 10,
  tilt 90, range 1 and roll 90.
\<close>

theorem applyLimits_clamping_example:
  assumes "\<not> is2D (globe (wwd c))"
    and "position c = \<lparr>latitude = 100, longitude = 185, altitude = - 1000\<rparr>"
    and "heading c = 370" and "tilt c = 100" and "range_f c = - 6000" and "roll c = - 270"
  shows "position (ArcBallCamera_applyLimits c) = \<lparr>latitude = 90, longitude = - 175, altitude = 0\<rparr> \<and>
         heading (ArcBallCamera_applyLimits c) = 10 \<and>
         tilt (ArcBallCamera_applyLimits c) = 90 \<and>
         range_f (ArcBallCamera_applyLimits c) = 1 \<and>
         roll (ArcBallCamera_applyLimits c) = 90"
  using assms
  by (simp add: ArcBallCamera_applyLimits_fields clamp_def normalizedDegrees_def
      normalizedDegreesLongitude_def ceiling_eq_iff)

theorem applyLimits_clamping_example_witness:
  "\<not> is2D (globe (wwd testArcBallCamera)) \<and>
   position testArcBallCamera = \<lparr>latitude = 100, longitude = 185, altitude = - 1000\<rparr> \<and>
   heading testArcBallCamera = 370 \<and> tilt testArcBallCamera = 100 \<and>
   range_f testArcBallCamera = - 6000 \<and> roll testArcBallCamera = - 270 \<and>
   position (ArcBallCamera_applyLimits testArcBallCamera) =
     \<lparr>latitude = 90, longitude = - 175, altitude = 0\<rparr> \<and>
   heading (ArcBallCamera_applyLimits testArcBallCamera) = 10 \<and>
   tilt (ArcBallCamera_applyLimits testArcBallCamera) = 90 \<and>
   range_f (ArcBallCamera_applyLimits testArcBallCamera) = 1 \<and>
   roll (ArcBallCamera_applyLimits testArcBallCamera) = 90"
  using applyLimits_clamping_example [of testArcBallCamera]
  by (simp add: testArcBallCamera_def roundEarth_def)

text \<open>
  Claim C6 (the asymmetry in flat mode). On a flat globe \<open>ArcBallCamera.applyLimits\<close>
  leaves the tilt at exactly 0 and the range clamped once more, to at most
  \<open>2 * pi * equatorialRadius\<close>; \<open>FirstPersonCamera.applyLimits\<close> does not look at the
  globe: replacing the WorldWindow of the camera by any other one changes nothing else in
  the result.
\<close>

theorem applyLimits_2D_asymmetry:
  "(is2D (globe (wwd c)) \<longrightarrow>
      tilt (ArcBallCamera_applyLimits c) = 0 \<and>
      range_f (ArcBallCamera_applyLimits c) =
        clamp (clamp (range_f c) 1 MAX_VALUE) 1 (2 * pi * equatorialRadius (globe (wwd c))) \<and>
      range_f (ArcBallCamera_applyLimits c) \<le> 2 * pi * equatorialRadius (globe (wwd c))) \<and>
   FirstPersonCamera_applyLimits (d\<lparr>wwd := w\<rparr>) = (FirstPersonCamera_applyLimits d)\<lparr>wwd := w\<rparr>"
proof -
  have "FirstPersonCamera_applyLimits (d\<lparr>wwd := w\<rparr>) = (FirstPersonCamera_applyLimits d)\<lparr>wwd := w\<rparr>"
    by (rule FirstPersonCamera.equality) (simp_all add: FirstPersonCamera_applyLimits_fields)
  then show ?thesis
    using ArcBall_range_le_max [of c] by (simp add: ArcBallCamera_applyLimits_fields)
qed

theorem applyLimits_2D_asymmetry_witness:
  "is2D (globe (wwd (testArcBallCamera\<lparr>wwd := flatEarth, range_f := 60000000\<rparr>))) \<and>
   tilt (ArcBallCamera_applyLimits (testArcBallCamera\<lparr>wwd := flatEarth, range_f := 60000000\<rparr>)) = 0 \<and>
   range_f (ArcBallCamera_applyLimits (testArcBallCamera\<lparr>wwd := flatEarth, range_f := 60000000\<rparr>))
     = 2 * pi * 6378137 \<and>
   tilt (ArcBallCamera_applyLimits (testArcBallCamera\<lparr>wwd := roundEarth, range_f := 60000000\<rparr>)) = 90 \<and>
   range_f (ArcBallCamera_applyLimits (testArcBallCamera\<lparr>wwd := roundEarth, range_f := 60000000\<rparr>))
     = 60000000 \<and>
   FirstPersonCamera_applyLimits (testFirstPersonCamera\<lparr>wwd := flatEarth\<rparr>) =
     (FirstPersonCamera_applyLimits testFirstPersonCamera)\<lparr>wwd := flatEarth\<rparr>"
proof -
  have h: "is2D (globe (wwd (testArcBallCamera\<lparr>wwd := flatEarth, range_f := 60000000\<rparr>)))"
    by (simp add: flatEarth_def)
  have M: "60000000 \<le> MAX_VALUE" using MAX_VALUE_ge by simp
  have r: "clamp (clamp 60000000 1 MAX_VALUE) 1 (2 * pi * 6378137) = 2 * pi * 6378137"
    using M pi_less_4 pi_ge_two by (simp add: clamp_def)
  have round: "tilt (ArcBallCamera_applyLimits (testArcBallCamera\<lparr>wwd := roundEarth, range_f := 60000000\<rparr>)) = 90"
    "range_f (ArcBallCamera_applyLimits (testArcBallCamera\<lparr>wwd := roundEarth, range_f := 60000000\<rparr>)) = 60000000"
    using M by (simp_all add: ArcBallCamera_applyLimits_fields roundEarth_def testArcBallCamera_def clamp_def)
  show ?thesis
    using h r round
      applyLimits_2D_asymmetry [where c = "testArcBallCamera\<lparr>wwd := flatEarth, range_f := 60000000\<rparr>"
        and d = testFirstPersonCamera and w = flatEarth]
    by (simp add: flatEarth_def)
qed

section \<open>Missing arguments\<close>

text \<open>
  Claim C7 (missing argument, and nothing changed). Each constructor and method that checks
  a required argument (the WorldWindow of the two camera constructors, the camera of the
  Navigator constructor, the matrix of \<open>createViewMatrix\<close>, the camera of \<open>copy\<close>,
  \<open>toFirstPerson\<close> and \<open>toArcBall\<close>) throws \<open>ArgumentError\<close> when the argument is
  absent, and the store after the throw is the store before the call.
\<close>

theorem missing_argument_atomic:
  "ArcBallCamera_new None h = (Inl ArgumentError, h) \<and>
   FirstPersonCamera_new None h = (Inl ArgumentError, h) \<and>
   Navigator_new None h = (Inl ArgumentError, h) \<and>
   ArcBallCamera_createViewMatrix P a None h = (Inl ArgumentError, h) \<and>
   FirstPersonCamera_createViewMatrix P b None h = (Inl ArgumentError, h) \<and>
   ArcBallCamera_copy a None h = (Inl ArgumentError, h) \<and>
   FirstPersonCamera_copy b None h = (Inl ArgumentError, h) \<and>
   ArcBallCamera_toFirstPerson P a None h = (Inl ArgumentError, h) \<and>
   FirstPersonCamera_toArcBall P b None h = (Inl ArgumentError, h)"
  by (simp add: ArcBallCamera_new_def FirstPersonCamera_new_def Navigator_new_def
      ArcBallCamera_createViewMatrix_def FirstPersonCamera_createViewMatrix_def
      ArcBallCamera_copy_def FirstPersonCamera_copy_def
      ArcBallCamera_toFirstPerson_def FirstPersonCamera_toArcBall_def)

section \<open>The view matrix\<close>

text \<open>
  Claim C8 (the contract of \<open>createViewMatrix\<close>). With a matrix given, the call first
  applies the limits to the camera (the camera in the store afterwards is the limited one),
  sets the matrix to the identity and multiplies it by the look-at transform of the limited
  camera: for the arc ball camera with its position, range, heading, tilt, roll and globe,
  for the first person camera with its position, range 0, heading, tilt + 90, roll and
  globe. It returns the reference it was given; that matrix holds the result and nothing
  else in the store has changed.
\<close>

theorem createViewMatrix_contract:
  "ArcBallCamera_createViewMatrix P a (Some m) h =
     (let c = ArcBallCamera_applyLimits (arcBallCameras h a) in
      (Inr m,
       h\<lparr>arcBallCameras := (arcBallCameras h)(a := c),
         matrices := (matrices h)(m := multiplyByLookAtModelview P identityMatrix
           (position c) (range_f c) (heading c) (tilt c) (roll c) (globe (wwd c)))\<rparr>)) \<and>
   FirstPersonCamera_createViewMatrix P b (Some m) h =
     (let d = FirstPersonCamera_applyLimits (firstPersonCameras h b) in
      (Inr m,
       h\<lparr>firstPersonCameras := (firstPersonCameras h)(b := d),
         matrices := (matrices h)(m := multiplyByLookAtModelview P identityMatrix
           (position d) 0 (heading d) (tilt d + 90) (roll d) (globe (wwd d)))\<rparr>))"
  by (simp only: ArcBallCamera_createViewMatrix_Some FirstPersonCamera_createViewMatrix_Some)

section \<open>The conversions\<close>

text \<open>
  Claim C5 (the tilt offset, once per path). \<open>FirstPersonCamera.createViewMatrix\<close> passes
  tilt + 90 to the look-at primitive and \<open>ArcBallCamera.createViewMatrix\<close> passes the
  tilt as it is. \<open>ArcBallCamera.toFirstPerson\<close> leaves in the output the extracted tilt
  minus 90, clamped to [-90,90] by the output's limits, so exactly the extracted tilt minus
  90 when the extracted tilt lies in [0,180]. \<open>FirstPersonCamera.toArcBall\<close> leaves in the
  output the extracted tilt with no offset, clamped to [0,90] by the output's limits (0 on
  a flat globe), so exactly the extracted tilt when it lies in [0,90] and the output's
  globe is round.
\<close>

theorem tilt_offset_once:
  "(let d = FirstPersonCamera_applyLimits (firstPersonCameras h b) in
      matrices (snd (FirstPersonCamera_createViewMatrix P b (Some m) h)) m =
        multiplyByLookAtModelview P identityMatrix
          (position d) 0 (heading d) (tilt d + 90) (roll d) (globe (wwd d))) \<and>
   (let c = ArcBallCamera_applyLimits (arcBallCameras h a);
        M = multiplyByLookAtModelview P identityMatrix
              (position c) (range_f c) (heading c) (tilt c) (roll c) (globe (wwd c));
        params = extractViewingParameters P M (extractEyePoint P M) (roll c) (globe (wwd c));
        t = tilt (firstPersonCameras (snd (ArcBallCamera_toFirstPerson P a (Some out) h)) out)
    in matrices (snd (ArcBallCamera_createViewMatrix P a (Some m) h)) m = M \<and>
       t = clamp (vp_tilt params - 90) (- 90) 90 \<and>
       (0 \<le> vp_tilt params \<and> vp_tilt params \<le> 180 \<longrightarrow> t = vp_tilt params - 90)) \<and>
   (let d = FirstPersonCamera_applyLimits (firstPersonCameras h b);
        M = multiplyByLookAtModelview P identityMatrix
              (position d) 0 (heading d) (tilt d + 90) (roll d) (globe (wwd d));
        r = (ray d)\<lparr>origin := extractEyePoint P M, direction := extractForwardVector P M\<rparr>;
        params = extractViewingParameters P M
                   (Line_pointAt r (range_f (arcBallCameras h out'))) (roll d) (globe (wwd d));
        t = tilt (arcBallCameras (snd (FirstPersonCamera_toArcBall P b (Some out') h)) out')
    in t = (if is2D (globe (wwd (arcBallCameras h out'))) then 0 else clamp (vp_tilt params) 0 90) \<and>
       (\<not> is2D (globe (wwd (arcBallCameras h out'))) \<and> 0 \<le> vp_tilt params \<and> vp_tilt params \<le> 90
          \<longrightarrow> t = vp_tilt params))"
  by (simp add: FirstPersonCamera_createViewMatrix_Some ArcBallCamera_createViewMatrix_Some
      ArcBallCamera_toFirstPerson_Some FirstPersonCamera_toArcBall_Some Let_def
      ArcBallCamera_applyLimits_fields FirstPersonCamera_applyLimits_fields clamp_id)

theorem tilt_offset_once_witness:
  "matrices (snd (FirstPersonCamera_createViewMatrix examplePrimitives 0 (Some 7) exampleHeap)) 7 ! 0
     = 180 \<and>
   matrices (snd (ArcBallCamera_createViewMatrix examplePrimitives 0 (Some 7) exampleHeap)) 7 ! 0
     = 90 \<and>
   tilt (firstPersonCameras (snd (ArcBallCamera_toFirstPerson examplePrimitives 0 (Some 0) exampleHeap)) 0)
     = - 40 \<and>
   tilt (arcBallCameras (snd (FirstPersonCamera_toArcBall examplePrimitives 0 (Some 0) exampleHeap)) 0)
     = 50"
  using tilt_offset_once [where h = exampleHeap and P = examplePrimitives and a = 0 and b = 0
      and m = 7 and out = 0 and out' = 0]
  by (simp add: Let_def examplePrimitives_def exampleHeap_def testArcBallCamera_def
      testFirstPersonCamera_def roundEarth_def identityMatrix_def
      ArcBallCamera_applyLimits_fields FirstPersonCamera_applyLimits_fields clamp_def)

text \<open>
  Claim C10 (\<open>toArcBall\<close> does not assign the output's range). The conversion returns the
  output camera; the output's range afterwards is what the output's own \<open>applyLimits\<close>
  makes of the range it had before the call, and its WorldWindow and scratch fields are
  untouched. So when the range set beforehand lies in [1, \<open>Number.MAX_VALUE\<close>] and the
  output's globe is not flat, the range after the conversion is the range before it.
\<close>

theorem toArcBall_keeps_range:
  "fst (FirstPersonCamera_toArcBall P this (Some out) h) = Inr out \<and>
   range_f (arcBallCameras (snd (FirstPersonCamera_toArcBall P this (Some out) h)) out) =
     range_f (ArcBallCamera_applyLimits (arcBallCameras h out)) \<and>
   wwd (arcBallCameras (snd (FirstPersonCamera_toArcBall P this (Some out) h)) out) =
     wwd (arcBallCameras h out) \<and>
   scratchMatrix (arcBallCameras (snd (FirstPersonCamera_toArcBall P this (Some out) h)) out) =
     scratchMatrix (arcBallCameras h out) \<and>
   scratchVector (arcBallCameras (snd (FirstPersonCamera_toArcBall P this (Some out) h)) out) =
     scratchVector (arcBallCameras h out) \<and>
   (\<not> is2D (globe (wwd (arcBallCameras h out))) \<and>
    1 \<le> range_f (arcBallCameras h out) \<and> range_f (arcBallCameras h out) \<le> MAX_VALUE \<longrightarrow>
      range_f (arcBallCameras (snd (FirstPersonCamera_toArcBall P this (Some out) h)) out) =
        range_f (arcBallCameras h out))"
  by (simp add: FirstPersonCamera_toArcBall_Some Let_def ArcBallCamera_applyLimits_fields clamp_id)

theorem toArcBall_keeps_range_witness:
  "\<not> is2D (globe (wwd (arcBallCameras exampleHeap 0))) \<and>
   1 \<le> range_f (arcBallCameras exampleHeap 0) \<and>
   range_f (arcBallCameras exampleHeap 0) \<le> MAX_VALUE \<and>
   fst (FirstPersonCamera_toArcBall examplePrimitives 0 (Some 0) exampleHeap) = Inr 0 \<and>
   range_f (arcBallCameras (snd (FirstPersonCamera_toArcBall examplePrimitives 0 (Some 0) exampleHeap)) 0)
     = 5000"
proof -
  have h1: "\<not> is2D (globe (wwd (arcBallCameras exampleHeap 0)))"
    by (simp add: exampleHeap_def testArcBallCamera_def roundEarth_def)
  have h2: "1 \<le> range_f (arcBallCameras exampleHeap 0)"
    by (simp add: exampleHeap_def)
  have h3: "range_f (arcBallCameras exampleHeap 0) \<le> MAX_VALUE"
    using MAX_VALUE_ge by (simp add: exampleHeap_def)
  have r: "range_f (arcBallCameras exampleHeap 0) = 5000"
    by (simp add: exampleHeap_def)
  show ?thesis
    using h1 h2 h3 r toArcBall_keeps_range [where P = examplePrimitives and this = 0 and out = 0
        and h = exampleHeap]
    by simp
qed

section \<open>The navigator as a facade\<close>


end
